theory Spec2Isabelle
  imports Complex_Main "HOL-Library.Sublist"
begin

section \<open>Python values the repository handles\<close>

text \<open>
  The repository (dtchess) is Python glue around a pretrained language model. Exceptions
  are values: a function that can raise returns \<open>pyerror + 'a\<close>, with \<open>Inl\<close> the exception.
  Only the exception class is kept, not its message.
\<close>

datatype pyerror =
    ValueError | TypeError | AttributeError | ZeroDivisionError
  | FileNotFoundError | OSError | ParseError

text \<open>
  Strings are lists of characters. A \<open>char\<close> is a code point below 256, so the model
  covers text in that range.
\<close>

definition LF :: char where
  "LF = CHR 0x0A"

definition CR :: char where
  "CR = CHR 0x0D"

definition codepoint :: "char \<Rightarrow> nat" where
  "codepoint c = of_char c"

text \<open>\<open>str.isspace\<close> of one character: the white space \<open>str.strip()\<close> removes.\<close>

definition py_isspace :: "char \<Rightarrow> bool" where
  "py_isspace c =
     ((9 \<le> codepoint c \<and> codepoint c \<le> 13) \<or> (28 \<le> codepoint c \<and> codepoint c \<le> 32)
      \<or> codepoint c = 133 \<or> codepoint c = 160)"

text \<open>\<open>s.strip()\<close> and \<open>s.strip(chars)\<close>.\<close>

definition py_strip :: "string \<Rightarrow> string" where
  "py_strip s = rev (dropWhile py_isspace (rev (dropWhile py_isspace s)))"

definition py_strip_chars :: "string \<Rightarrow> string \<Rightarrow> string" where
  "py_strip_chars chars s =
     rev (dropWhile (\<lambda>c. c \<in> set chars) (rev (dropWhile (\<lambda>c. c \<in> set chars) s)))"

text \<open>
  \<open>s.split(sep)\<close> for a separator that is not empty (the source only splits on the
  literals \<open>":"\<close> and \<open>", "\<close>): the pieces between the occurrences of \<open>sep\<close>, found from
  the left. \<open>acc\<close> holds the current piece, reversed.
\<close>

function split_from :: "string \<Rightarrow> string \<Rightarrow> string \<Rightarrow> string list" where
  "split_from sep acc [] = [rev acc]"
| "split_from sep acc (c # cs) =
     (if sep \<noteq> [] \<and> prefix sep (c # cs)
      then rev acc # split_from sep [] (drop (length sep) (c # cs))
      else split_from sep (c # acc) cs)"
  by pat_completeness auto
termination
  by (relation "measure (\<lambda>(sep, acc, s). length s)") (auto simp: neq_Nil_conv)

definition py_split :: "string \<Rightarrow> string \<Rightarrow> string list" where
  "py_split sep s = split_from sep [] s"

text \<open>\<open>sub in s\<close> on strings: \<open>sub\<close> occurs in \<open>s\<close> as a contiguous piece.\<close>

fun py_in :: "string \<Rightarrow> string \<Rightarrow> bool" where
  "py_in sub [] = (sub = [])"
| "py_in sub (c # cs) = (prefix sub (c # cs) \<or> py_in sub cs)"

subsection \<open>Reading a text file line by line\<close>

text \<open>
  \<open>open(path, "r", encoding="utf-8")\<close> reads with universal newlines: \<open>\r\n\<close> and a lone
  \<open>\r\<close> arrive as \<open>\n\<close>. Iterating over the file yields its lines, each with its final
  \<open>\n\<close> (the last line has none when the file does not end with one). The file system is
  a map from paths to the decoded text of each file.
\<close>

type_synonym filesystem = "string \<rightharpoonup> string"

fun universal_newlines :: "string \<Rightarrow> string" where
  "universal_newlines [] = []"
| "universal_newlines [c] = [if c = CR then LF else c]"
| "universal_newlines (c # d # cs) =
     (if c = CR \<and> d = LF then LF # universal_newlines cs
      else if c = CR then LF # universal_newlines (d # cs)
      else c # universal_newlines (d # cs))"

fun lines_from :: "string \<Rightarrow> string \<Rightarrow> string list" where
  "lines_from acc [] = (if acc = [] then [] else [rev acc])"
| "lines_from acc (c # cs) =
     (if c = LF then rev (c # acc) # lines_from [] cs else lines_from (c # acc) cs)"

definition file_lines :: "string \<Rightarrow> string list" where
  "file_lines content = lines_from [] (universal_newlines content)"

subsection \<open>\<open>int(s)\<close> and \<open>float(s)\<close>\<close>

text \<open>
  Both strip white space first; theirs is the set below, which has no \<open>\x1c\<close> to \<open>\x1f\<close>.
  Both allow single underscores between digits. \<open>remove_underscores prev s\<close> follows
  CPython's scan: an underscore must come after a digit and before a digit; the result
  is \<open>s\<close> without them, or \<open>None\<close> where CPython rejects the string.
\<close>

definition num_isspace :: "char \<Rightarrow> bool" where
  "num_isspace c = ((9 \<le> codepoint c \<and> codepoint c \<le> 13) \<or> codepoint c = 32 \<or> codepoint c = 133 \<or> codepoint c = 160)"

definition num_strip :: "string \<Rightarrow> string" where
  "num_strip s = rev (dropWhile num_isspace (rev (dropWhile num_isspace s)))"

definition is_digit :: "char \<Rightarrow> bool" where
  "is_digit c = (48 \<le> codepoint c \<and> codepoint c \<le> 57)"

definition digit_val :: "char \<Rightarrow> nat" where
  "digit_val c = codepoint c - 48"

definition dec_value :: "string \<Rightarrow> nat" where
  "dec_value ds = foldl (\<lambda>n c. 10 * n + digit_val c) 0 ds"

fun remove_underscores :: "char option \<Rightarrow> string \<Rightarrow> string option" where
  "remove_underscores prev [] = (if prev = Some CHR ''_'' then None else Some [])"
| "remove_underscores prev (c # cs) =
     (if c = CHR ''_'' then
        (case prev of
           None \<Rightarrow> None
         | Some p \<Rightarrow> if is_digit p then remove_underscores (Some c) cs else None)
      else if prev = Some CHR ''_'' \<and> \<not> is_digit c then None
      else map_option ((#) c) (remove_underscores (Some c) cs))"

text \<open>A leading sign: whether it is a minus, and the rest.\<close>

definition split_sign :: "string \<Rightarrow> bool \<times> string" where
  "split_sign s =
     (case s of
        [] \<Rightarrow> (False, [])
      | c # cs \<Rightarrow> if c = CHR ''-'' then (True, cs) else if c = CHR ''+'' then (False, cs)
                 else (False, s))"

text \<open>
  \<open>int(s)\<close> in base ten: \<open>None\<close> is the ValueError. (The digit limit recent CPython
  versions put on such conversions, 4300 digits by default, is left out.)
\<close>

definition py_int :: "string \<Rightarrow> int option" where
  "py_int s =
     (case split_sign (num_strip s) of
        (neg, body) \<Rightarrow>
          (case remove_underscores None body of
             None \<Rightarrow> None
           | Some ds \<Rightarrow>
               if ds \<noteq> [] \<and> list_all is_digit ds
               then Some (if neg then - int (dec_value ds) else int (dec_value ds))
               else None))"

text \<open>
  A Python float is kept as the exact value its decimal text denotes, or as one of the
  special values. Rounding to a binary64 is not modelled: two texts that Python rounds to
  the same float can be different values here, so the model is used for what a text parses
  to, never to tell two floats apart. A float literal of the source is the value of its
  text.
\<close>

datatype pyfloat = Finite rat | Infinite bool | NaN

definition lower :: "char \<Rightarrow> char" where
  "lower c = (if 65 \<le> codepoint c \<and> codepoint c \<le> 90 then char_of (codepoint c + 32) else c)"

text \<open>
  The decimal part of the grammar, after the sign: digits with an optional point (at
  least one digit on one side of it), then an optional exponent, which needs a digit.
\<close>

definition scale10 :: "rat \<Rightarrow> bool \<Rightarrow> nat \<Rightarrow> rat" where
  "scale10 m neg e = (if neg then m / 10 ^ e else m * 10 ^ e)"

definition parse_decimal :: "string \<Rightarrow> rat option" where
  "parse_decimal u =
     (let ip = takeWhile is_digit u;
          r1 = dropWhile is_digit u;
          has_point = (r1 \<noteq> [] \<and> hd r1 = CHR ''.'');
          fp = (if has_point then takeWhile is_digit (tl r1) else []);
          r2 = (if has_point then dropWhile is_digit (tl r1) else r1);
          m = of_nat (dec_value (ip @ fp)) / 10 ^ length fp
      in if ip = [] \<and> fp = [] then None
         else if r2 = [] then Some m
         else if lower (hd r2) = CHR ''e'' then
           (case split_sign (tl r2) of
              (eneg, ds) \<Rightarrow>
                if ds \<noteq> [] \<and> list_all is_digit ds then Some (scale10 m eneg (dec_value ds))
                else None)
         else None)"

text \<open>\<open>float(s)\<close>: \<open>None\<close> is the ValueError.\<close>

definition py_float :: "string \<Rightarrow> pyfloat option" where
  "py_float s =
     (case remove_underscores None (num_strip s) of
        None \<Rightarrow> None
      | Some t \<Rightarrow>
          (case split_sign t of
             (neg, body) \<Rightarrow>
               if map lower body = ''inf'' \<or> map lower body = ''infinity'' then Some (Infinite neg)
               else if map lower body = ''nan'' then Some NaN
               else (case parse_decimal body of
                       None \<Rightarrow> None
                     | Some m \<Rightarrow> Some (Finite (if neg then - m else m)))))"

section \<open>The config loader (utils/config.py)\<close>

text \<open>
  The dataclass \<open>TrainingConfig\<close>, with the types of its annotations. \<open>ckpt_path\<close> is a
  string or \<open>None\<close>.
\<close>

record TrainingConfig =
  max_epochs :: int
  batch_size :: int
  learning_rate :: pyfloat
  betas :: "pyfloat \<times> pyfloat"
  weight_decay :: pyfloat
  ckpt_path :: "string option"
  num_workers :: int

text \<open>
  The dictionary \<open>kwargs\<close> that \<open>config_from_file\<close> fills: one optional entry for each key
  the loop can assign, \<open>None\<close> while the key is not in the dictionary.
\<close>

record kwargs =
  kw_max_epochs :: "int option"
  kw_batch_size :: "int option"
  kw_num_workers :: "int option"
  kw_learning_rate :: "pyfloat option"
  kw_weight_decay :: "pyfloat option"
  kw_betas :: "(pyfloat \<times> pyfloat) option"

definition empty_kwargs :: kwargs where
  "empty_kwargs =
     \<lparr>kw_max_epochs = None, kw_batch_size = None, kw_num_workers = None,
      kw_learning_rate = None, kw_weight_decay = None, kw_betas = None\<rparr>"

text \<open>\<open>TrainingConfig(**kwargs)\<close>: a field takes its entry, or its declared default.\<close>

definition TrainingConfig_init :: "kwargs \<Rightarrow> TrainingConfig" where
  "TrainingConfig_init kw =
     \<lparr>max_epochs = (case kw_max_epochs kw of None \<Rightarrow> 10 | Some i \<Rightarrow> i),
      batch_size = (case kw_batch_size kw of None \<Rightarrow> 64 | Some i \<Rightarrow> i),
      learning_rate = (case kw_learning_rate kw of None \<Rightarrow> Finite (1 / 10000) | Some x \<Rightarrow> x),
      betas = (case kw_betas kw of None \<Rightarrow> (Finite (9 / 10), Finite (95 / 100)) | Some b \<Rightarrow> b),
      weight_decay = (case kw_weight_decay kw of None \<Rightarrow> Finite (1 / 10) | Some x \<Rightarrow> x),
      ckpt_path = None,
      num_workers = (case kw_num_workers kw of None \<Rightarrow> 0 | Some i \<Rightarrow> i)\<rparr>"

text \<open>\<open>kwargs[k] = ...\<close> for the integer keys and for the float keys.\<close>

definition set_int :: "string \<Rightarrow> int \<Rightarrow> kwargs \<Rightarrow> kwargs" where
  "set_int k i kw =
     (if k = ''max_epochs'' then kw\<lparr>kw_max_epochs := Some i\<rparr>
      else if k = ''batch_size'' then kw\<lparr>kw_batch_size := Some i\<rparr>
      else kw\<lparr>kw_num_workers := Some i\<rparr>)"

definition set_float :: "string \<Rightarrow> pyfloat \<Rightarrow> kwargs \<Rightarrow> kwargs" where
  "set_float k x kw =
     (if k = ''learning_rate'' then kw\<lparr>kw_learning_rate := Some x\<rparr>
      else kw\<lparr>kw_weight_decay := Some x\<rparr>)"

text \<open>
  Lines 18 to 20: \<open>k, v = line.split(":")\<close> raises ValueError unless the split has exactly
  two pieces; then both are stripped.
\<close>

definition key_value :: "string \<Rightarrow> pyerror + (string \<times> string)" where
  "key_value line =
     (case py_split '':'' line of
        [k, v] \<Rightarrow> Inr (py_strip k, py_strip (py_strip_chars [LF] v))
      | _ \<Rightarrow> Inl ValueError)"

text \<open>
  Lines 26 to 29, the value of the key \<open>betas\<close>: \<open>v.split(", ")\<close> must give two pieces;
  \<open>b1_str[1:]\<close> drops the first character of the first, \<open>b2_str[:-1]\<close> the last character
  of the second, and each rest goes through \<open>float\<close>. \<open>None\<close> is the ValueError.
\<close>

definition parse_betas :: "string \<Rightarrow> (pyfloat \<times> pyfloat) option" where
  "parse_betas v =
     (case py_split '', '' v of
        [b1_str, b2_str] \<Rightarrow>
          (case py_float (drop 1 (py_strip b1_str)) of
             None \<Rightarrow> None
           | Some b1 \<Rightarrow>
               (case py_float (butlast (py_strip b2_str)) of
                  None \<Rightarrow> None
                | Some b2 \<Rightarrow> Some (b1, b2)))
      | _ \<Rightarrow> None)"

text \<open>Lines 21 to 29: the branch for the key. A key of no branch is ignored.\<close>

definition store :: "kwargs \<Rightarrow> string \<Rightarrow> string \<Rightarrow> pyerror + kwargs" where
  "store kw k v =
     (if k \<in> set [''max_epochs'', ''batch_size'', ''num_workers''] then
        (case py_int v of None \<Rightarrow> Inl ValueError | Some i \<Rightarrow> Inr (set_int k i kw))
      else if k \<in> set [''learning_rate'', ''weight_decay''] then
        (case py_float v of None \<Rightarrow> Inl ValueError | Some x \<Rightarrow> Inr (set_float k x kw))
      else if k = ''betas'' then
        (case parse_betas v of
           None \<Rightarrow> Inl ValueError
         | Some b \<Rightarrow> Inr (kw\<lparr>kw_betas := Some b\<rparr>))
      else Inr kw)"

definition loop_body :: "kwargs \<Rightarrow> string \<Rightarrow> pyerror + kwargs" where
  "loop_body kw line =
     (case key_value line of Inl e \<Rightarrow> Inl e | Inr (k, v) \<Rightarrow> store kw k v)"

text \<open>The loop over the lines stops at the first exception.\<close>

fun for_lines :: "kwargs \<Rightarrow> string list \<Rightarrow> pyerror + kwargs" where
  "for_lines kw [] = Inr kw"
| "for_lines kw (line # rest) =
     (case loop_body kw line of Inl e \<Rightarrow> Inl e | Inr kw' \<Rightarrow> for_lines kw' rest)"

definition config_from_file :: "filesystem \<Rightarrow> string \<Rightarrow> pyerror + TrainingConfig" where
  "config_from_file fs yaml_file =
     (case fs yaml_file of
        None \<Rightarrow> Inl FileNotFoundError
      | Some content \<Rightarrow>
          (case for_lines empty_kwargs (file_lines content) of
             Inl e \<Rightarrow> Inl e
           | Inr kw \<Rightarrow> Inr (TrainingConfig_init kw)))"

text \<open>
  To say which line decides a field: \<open>has_key k line\<close> when the line passes line 18 with
  the key \<open>k\<close>; \<open>names_key ls k\<close> when some line of \<open>ls\<close> does; \<open>last_value k ls\<close> is the
  value text of the last line whose key is \<open>k\<close>, or \<open>None\<close> when no line has that key.
\<close>

definition has_key :: "string \<Rightarrow> string \<Rightarrow> bool" where
  "has_key k line = (case key_value line of Inl e \<Rightarrow> False | Inr (k', v) \<Rightarrow> k' = k)"

definition names_key :: "string list \<Rightarrow> string \<Rightarrow> bool" where
  "names_key ls k = list_ex (has_key k) ls"

definition last_value :: "string \<Rightarrow> string list \<Rightarrow> string option" where
  "last_value k ls =
     (case filter (has_key k) ls of
        [] \<Rightarrow> None
      | l # rest \<Rightarrow>
          (case key_value (last (l # rest)) of Inl e \<Rightarrow> None | Inr (k', v) \<Rightarrow> Some v))"

text \<open>The keys that have a branch in the loop.\<close>

definition recognised :: "string list" where
  "recognised = [''max_epochs'', ''batch_size'', ''num_workers'', ''learning_rate'',
     ''weight_decay'', ''betas'']"

section \<open>Parameter counting (utils/utils.py)\<close>

text \<open>
  A parameter of a model: its shape and whether it requires gradients. \<open>p.numel()\<close> would
  be the product of the shape.
\<close>

record parameter =
  shape :: "nat list"
  requires_grad :: bool

definition numel :: "parameter \<Rightarrow> int" where
  "numel p = int (prod_list (shape p))"

text \<open>
  What the generator of line 49 yields. The source writes \<open>p.numel\<close>, with no call:
  the item is the bound method of \<open>p\<close>, not the number it would return.
\<close>

datatype item = Number int | BoundMethod parameter

text \<open>
  \<open>sum(items)\<close>: starts from 0 and adds the items from the left; adding a method to an
  integer raises TypeError.
\<close>

fun sum_from :: "int \<Rightarrow> item list \<Rightarrow> pyerror + int" where
  "sum_from acc [] = Inr acc"
| "sum_from acc (Number i # rest) = sum_from (acc + i) rest"
| "sum_from acc (BoundMethod p # rest) = Inl TypeError"

definition count_parameters :: "parameter list \<Rightarrow> pyerror + int" where
  "count_parameters model = sum_from 0 (map BoundMethod (filter requires_grad model))"

text \<open>What the specification asks for: the number of trainable parameter elements.\<close>

definition trainable_elements :: "parameter list \<Rightarrow> int" where
  "trainable_elements model = sum_list (map numel (filter requires_grad model))"

section \<open>Tag extraction (utils/utils.py)\<close>

text \<open>
  An element of \<open>xml.etree.ElementTree\<close>: its tag, its text (the character data before
  its first child, \<open>None\<close> when there is none) and its children. The tail of an element
  is not kept: \<open>extract_tag\<close> never reads it.
\<close>

datatype element = Element string "string option" "element list"

fun el_tag :: "element \<Rightarrow> string" where
  "el_tag (Element t x cs) = t"

fun el_text :: "element \<Rightarrow> string option" where
  "el_text (Element t x cs) = x"

fun el_children :: "element \<Rightarrow> element list" where
  "el_children (Element t x cs) = cs"

text \<open>
  The two library functions \<open>extract_tag\<close> calls: \<open>ET.fromstring\<close>, which parses a document
  or raises, and \<open>Element.find\<close>, which returns an element or \<open>None\<close>.
\<close>

record etree =
  fromstring :: "string \<Rightarrow> pyerror + element"
  find_in :: "element \<Rightarrow> string \<Rightarrow> element option"

text \<open>
  \<open>extract_tag\<close>, lines 18 to 23. \<open>.text\<close> of the \<open>None\<close> that \<open>find\<close> returns for no match
  raises AttributeError. The result is the text of the element found, which can be \<open>None\<close>.
\<close>

definition extract_tag :: "etree \<Rightarrow> string \<Rightarrow> string \<Rightarrow> pyerror + string option" where
  "extract_tag ET input_string tag_name =
     (if \<not> py_in tag_name input_string then Inl ValueError
      else
        (case fromstring ET (''<root>'' @ input_string @ ''</root>'') of
           Inl e \<Rightarrow> Inl e
         | Inr tree \<Rightarrow>
             (case find_in ET tree tag_name of
                None \<Rightarrow> Inl AttributeError
              | Some el \<Rightarrow> Inr (el_text el))))"

subsection \<open>The library on plain documents\<close>

text \<open>
  A model of the two library functions for plain documents: start tags \<open><name>\<close>, end tags
  \<open></name>\<close>, empty elements \<open><name/>\<close> and character data, with names made of ASCII
  letters, digits, \<open>_\<close>, \<open>-\<close> and \<open>.\<close>, and character data made of printable ASCII other
  than \<open><\<close>, \<open>>\<close> and \<open>&\<close>, tabs and newlines. On these the parser gives the tree the
  library gives, or ParseError where the document is not well formed. Documents with
  anything else (attributes, entities, comments, namespaces) are outside the model: it
  answers ParseError for them, which says nothing about the library.
\<close>

definition is_letter :: "char \<Rightarrow> bool" where
  "is_letter c =
     ((65 \<le> codepoint c \<and> codepoint c \<le> 90) \<or> (97 \<le> codepoint c \<and> codepoint c \<le> 122))"

definition is_name_start :: "char \<Rightarrow> bool" where
  "is_name_start c = (is_letter c \<or> c = CHR ''_'')"

definition is_name_char :: "char \<Rightarrow> bool" where
  "is_name_char c = (is_letter c \<or> is_digit c \<or> c = CHR ''_'' \<or> c = CHR ''-'' \<or> c = CHR ''.'')"

definition is_chardata :: "char \<Rightarrow> bool" where
  "is_chardata c =
     (((32 \<le> codepoint c \<and> codepoint c \<le> 126) \<or> codepoint c = 9 \<or> codepoint c = 10)
      \<and> c \<noteq> CHR ''<'' \<and> c \<noteq> CHR ''>'' \<and> c \<noteq> CHR ''&'')"

text \<open>
  An open element while its content is read: tag, text so far, children so far (latest
  first). The parser reads one character at a time; its mode says what it is inside.
\<close>

datatype frame = Frame string "string option" "element list"

datatype mode =
    Chars string
  | AfterLt
  | InStart string
  | InEmpty string
  | InEnd string
  | Finished element

text \<open>
  Character data goes to the text of the open element while it has no child yet (after a
  child it is that child's tail, which is dropped).
\<close>

fun add_chars :: "string \<Rightarrow> frame list \<Rightarrow> frame list" where
  "add_chars s [] = []"
| "add_chars s (Frame t x cs # st) =
     (if s = [] \<or> cs \<noteq> [] then Frame t x cs # st
      else Frame t (Some ((case x of None \<Rightarrow> [] | Some y \<Rightarrow> y) @ s)) cs # st)"

text \<open>A finished element becomes the latest child of the element around it, or the root.\<close>

fun close_element :: "element \<Rightarrow> frame list \<Rightarrow> mode \<times> frame list" where
  "close_element e [] = (Finished e, [])"
| "close_element e (Frame t x cs # st) = (Chars [], Frame t x (e # cs) # st)"

fun parse_step :: "mode \<Rightarrow> frame list \<Rightarrow> char \<Rightarrow> (mode \<times> frame list) option" where
  "parse_step (Chars acc) st c =
     (if c = CHR ''<'' then Some (AfterLt, add_chars (rev acc) st)
      else if is_chardata c \<and> st \<noteq> [] then Some (Chars (c # acc), st)
      else None)"
| "parse_step AfterLt st c =
     (if c = CHR ''/'' then Some (InEnd [], st)
      else if is_name_start c then Some (InStart [c], st)
      else None)"
| "parse_step (InStart n) st c =
     (if is_name_char c then Some (InStart (c # n), st)
      else if c = CHR ''>'' then Some (Chars [], Frame (rev n) None [] # st)
      else if c = CHR ''/'' then Some (InEmpty n, st)
      else None)"
| "parse_step (InEmpty n) st c =
     (if c = CHR ''>'' then Some (close_element (Element (rev n) None []) st) else None)"
| "parse_step (InEnd n) st c =
     (if is_name_char c then Some (InEnd (c # n), st)
      else if c = CHR ''>'' then
        (case st of
           [] \<Rightarrow> None
         | Frame t x cs # st' \<Rightarrow>
             if t = rev n then Some (close_element (Element t x (rev cs)) st') else None)
      else None)"
| "parse_step (Finished e) st c = (if num_isspace c then Some (Finished e, st) else None)"

fun parse_from :: "mode \<Rightarrow> frame list \<Rightarrow> string \<Rightarrow> element option" where
  "parse_from m st [] = (case m of Finished e \<Rightarrow> Some e | _ \<Rightarrow> None)"
| "parse_from m st (c # cs) =
     (case parse_step m st c of None \<Rightarrow> None | Some (m', st') \<Rightarrow> parse_from m' st' cs)"

definition plain_fromstring :: "string \<Rightarrow> pyerror + element" where
  "plain_fromstring doc =
     (case parse_from (Chars []) [] doc of None \<Rightarrow> Inl ParseError | Some e \<Rightarrow> Inr e)"

text \<open>\<open>find\<close> with a plain tag name: the first child with that tag.\<close>

definition first_child :: "element \<Rightarrow> string \<Rightarrow> element option" where
  "first_child e name = List.find (\<lambda>c. el_tag c = name) (el_children e)"

definition ElementTree :: etree where
  "ElementTree = \<lparr>fromstring = plain_fromstring, find_in = first_child\<rparr>"

section \<open>The model factory (models/gpt.py)\<close>

text \<open>
  Objects of the libraries, as far as the source looks into them: an integer, an embedding
  table \<open>nn.Embedding(num_embeddings, embedding_dim)\<close>, a tokenizer (the size of its
  pretrained vocabulary and the tokens added to it since), a module with its attributes by
  name, and any other object. Reading an attribute an object does not have raises
  AttributeError. Of a tokenizer and of an embedding table only the attributes the source
  reads are modelled; \<open>vocab_size\<close> of a tokenizer is the size of the pretrained vocabulary,
  which added tokens do not change.
\<close>

datatype pyobj =
    IntO int
  | Embedding nat nat
  | Tokenizer nat "string list"
  | Module "(string \<times> pyobj) list"
  | Other

fun getattr :: "pyobj \<Rightarrow> string \<Rightarrow> pyerror + pyobj" where
  "getattr (Embedding n d) name =
     (if name = ''num_embeddings'' then Inr (IntO (int n))
      else if name = ''embedding_dim'' then Inr (IntO (int d))
      else Inl AttributeError)"
| "getattr (Tokenizer n added) name =
     (if name = ''vocab_size'' then Inr (IntO (int n)) else Inl AttributeError)"
| "getattr (Module attrs) name =
     (case map_of attrs name of None \<Rightarrow> Inl AttributeError | Some v \<Rightarrow> Inr v)"
| "getattr (IntO i) name = Inl AttributeError"
| "getattr Other name = Inl AttributeError"

text \<open>\<open>obj.name = v\<close> on a module.\<close>

fun setattr :: "pyobj \<Rightarrow> string \<Rightarrow> pyobj \<Rightarrow> pyobj" where
  "setattr (Module attrs) name v = Module ((name, v) # filter (\<lambda>(k, w). k \<noteq> name) attrs)"
| "setattr obj name v = obj"

text \<open>
  \<open>tokeniser.add_special_tokens({"pad_token": token})\<close>: the token joins the added tokens
  unless it is one already (the pretrained GPT-2 vocabularies have no \<open>[PAD]\<close>).
  \<open>len(tokeniser)\<close> counts the pretrained vocabulary and the added tokens.
\<close>

fun add_special_tokens :: "pyobj \<Rightarrow> string \<Rightarrow> pyobj" where
  "add_special_tokens (Tokenizer n added) token =
     Tokenizer n (if token \<in> set added then added else added @ [token])"
| "add_special_tokens obj token = obj"

fun tokenizer_len :: "pyobj \<Rightarrow> nat" where
  "tokenizer_len (Tokenizer n added) = n + length added"
| "tokenizer_len obj = 0"

text \<open>
  What \<open>from_pretrained\<close> returns for a model identifier, tokenizer and model; \<open>None\<close>
  where nothing can be fetched for it, which raises OSError.
\<close>

record pretrained =
  GPT2Tokenizer_from_pretrained :: "string \<Rightarrow> pyobj option"
  GPT2LMHeadModel_from_pretrained :: "string \<Rightarrow> pyobj option"

text \<open>\<open>nn.Embedding(a, b)\<close> of two integer objects.\<close>

fun nn_Embedding :: "pyobj \<Rightarrow> pyobj \<Rightarrow> pyerror + pyobj" where
  "nn_Embedding (IntO a) (IntO b) =
     (if 0 \<le> a \<and> 0 \<le> b then Inr (Embedding (nat a) (nat b)) else Inl ValueError)"
| "nn_Embedding a b = Inl TypeError"

fun plus_one :: "pyobj \<Rightarrow> pyerror + pyobj" where
  "plus_one (IntO a) = Inr (IntO (a + 1))"
| "plus_one obj = Inl TypeError"

text \<open>
  \<open>create_model\<close>, lines 6 to 17. Line 14 evaluates \<open>tokeniser.vocab_size + 1\<close>, then
  \<open>model.wte.embedding_dim\<close>, builds the table and binds it to the attribute \<open>wte\<close> of the
  model. \<open>model.to(device)\<close> moves the model and changes nothing the source reads. The pair
  returned is \<open>(tokeniser, model)\<close>, in this order.
\<close>

definition create_model :: "pretrained \<Rightarrow> string \<Rightarrow> pyerror + (pyobj \<times> pyobj)" where
  "create_model hub model_type =
     (case GPT2Tokenizer_from_pretrained hub model_type of
        None \<Rightarrow> Inl OSError
      | Some tok \<Rightarrow>
          (let tokeniser = add_special_tokens tok ''[PAD]'' in
           case GPT2LMHeadModel_from_pretrained hub model_type of
             None \<Rightarrow> Inl OSError
           | Some model \<Rightarrow>
               (case getattr tokeniser ''vocab_size'' of
                  Inl e \<Rightarrow> Inl e
                | Inr vs \<Rightarrow>
                    (case plus_one vs of
                       Inl e \<Rightarrow> Inl e
                     | Inr rows \<Rightarrow>
                         (case getattr model ''wte'' of
                            Inl e \<Rightarrow> Inl e
                          | Inr wte \<Rightarrow>
                              (case getattr wte ''embedding_dim'' of
                                 Inl e \<Rightarrow> Inl e
                               | Inr width \<Rightarrow>
                                   (case nn_Embedding rows width of
                                      Inl e \<Rightarrow> Inl e
                                    | Inr table \<Rightarrow>
                                        Inr (tokeniser, setattr model ''wte'' table))))))))"

text \<open>
  The objects the transformers library returns for GPT-2. A \<open>GPT2LMHeadModel\<close> has two
  submodules, \<open>transformer\<close> and \<open>lm_head\<close>; the token embedding table \<open>wte\<close> and the position
  embedding table \<open>wpe\<close> are attributes of \<open>transformer\<close> (where train_light.py reads \<open>wpe\<close>).
  The vocabulary has 50257 entries and there are 1024 positions; the embedding dimension
  is 768 for \<open>gpt2\<close>, 1024 for \<open>gpt2-medium\<close>, 1280 for \<open>gpt2-large\<close> and 1600 for
  \<open>gpt2-xl\<close>. These four identifiers are the ones modelled: for any other, the model
  takes it that nothing can be fetched.
\<close>

definition GPT2LMHeadModel :: "nat \<Rightarrow> pyobj" where
  "GPT2LMHeadModel n_embd =
     Module [(''transformer'',
                Module [(''wte'', Embedding 50257 n_embd), (''wpe'', Embedding 1024 n_embd)]),
             (''lm_head'', Other)]"

definition n_embd_of :: "string \<Rightarrow> nat option" where
  "n_embd_of model_type =
     (if model_type = ''gpt2'' then Some 768
      else if model_type = ''gpt2-medium'' then Some 1024
      else if model_type = ''gpt2-large'' then Some 1280
      else if model_type = ''gpt2-xl'' then Some 1600
      else None)"

definition transformers :: pretrained where
  "transformers =
     \<lparr>GPT2Tokenizer_from_pretrained =
        (\<lambda>model_type. map_option (\<lambda>d. Tokenizer 50257 []) (n_embd_of model_type)),
      GPT2LMHeadModel_from_pretrained =
        (\<lambda>model_type. map_option GPT2LMHeadModel (n_embd_of model_type))\<rparr>"

text \<open>
  A library of another layout, to run the code past the factory: its model object has
  the attribute \<open>wte\<close> itself, a vocabulary of 10 entries and 16 positions.
\<close>

definition flat_library :: pretrained where
  "flat_library =
     \<lparr>GPT2Tokenizer_from_pretrained = (\<lambda>model_type. Some (Tokenizer 10 [])),
      GPT2LMHeadModel_from_pretrained =
        (\<lambda>model_type. Some (Module [(''wte'', Embedding 10 4),
           (''transformer'', Module [(''wpe'', Embedding 16 4)])]))\<rparr>"

section \<open>The data pipelines (utils/utils.py and utils/train_light.py)\<close>

text \<open>
  A config object as the pipeline and the training loop get it: a \<open>TrainingConfig\<close> that
  may carry further instance attributes, integers or strings, beyond the declared fields.
  \<open>config.name\<close> for a name that is not a declared field finds it among those, or raises
  AttributeError.
\<close>

datatype pyval = IntV int | StrV string

record config_instance = TrainingConfig +
  attrs :: "(string \<times> pyval) list"

definition attr :: "config_instance \<Rightarrow> string \<Rightarrow> pyerror + pyval" where
  "attr config name =
     (case map_of (attrs config) name of None \<Rightarrow> Inl AttributeError | Some v \<Rightarrow> Inr v)"

text \<open>A \<open>TrainingConfig\<close> as it comes from its constructor: no further attribute.\<close>

definition instance_of :: "TrainingConfig \<Rightarrow> config_instance" where
  "instance_of c =
     \<lparr>max_epochs = max_epochs c, batch_size = batch_size c, learning_rate = learning_rate c,
      betas = betas c, weight_decay = weight_decay c, ckpt_path = ckpt_path c,
      num_workers = num_workers c, attrs = []\<rparr>"

text \<open>
  One call of the tokenizer as the mapped function makes it: the object called, the texts
  of the batch and \<open>max_length\<close> (\<open>padding="max_length"\<close> and \<open>truncation=True\<close> in both
  pipelines). The call itself belongs to the library.
\<close>

record tokenizer_call =
  callee :: pyobj
  texts :: "string list"
  max_length :: pyobj

text \<open>
  \<open>DataLoader(dataset, batch_size=n)\<close> groups the items into batches of \<open>n\<close>, the last one
  shorter when the items run out; it refuses a batch size that is not positive.
\<close>

fun batches_from :: "nat \<Rightarrow> 'a list \<Rightarrow> 'a list \<Rightarrow> 'a list list" where
  "batches_from n cur [] = (if cur = [] then [] else [rev cur])"
| "batches_from n cur (x # xs) =
     (if Suc (length cur) = n then rev (x # cur) # batches_from n [] xs
      else batches_from n (x # cur) xs)"

definition DataLoader :: "'a list \<Rightarrow> int \<Rightarrow> pyerror + 'a list list" where
  "DataLoader dataset n =
     (if n \<le> 0 then Inl ValueError else Inr (batches_from (nat n) [] dataset))"

text \<open>
  \<open>preprocess_data\<close>, lines 89 to 107. \<open>load_dataset\<close> gives the batches of texts of the
  dataset named (\<open>None\<close>: it cannot be loaded). The mapped function calls the tokenizer
  with \<open>max_length=1024\<close>.
\<close>

definition preprocess_data ::
  "(pyval \<Rightarrow> string list list option) \<Rightarrow> pyobj \<Rightarrow> config_instance
    \<Rightarrow> pyerror + tokenizer_call list list" where
  "preprocess_data load_dataset tokeniser config =
     (case attr config ''dataset'' of
        Inl e \<Rightarrow> Inl e
      | Inr name \<Rightarrow>
          (case load_dataset name of
             None \<Rightarrow> Inl OSError
           | Some dataset \<Rightarrow>
               (let tokeniser' = add_special_tokens tokeniser ''[PAD]'';
                    input_ids =
                      map (\<lambda>seq. \<lparr>callee = tokeniser', texts = seq, max_length = IntO 1024\<rparr>)
                        dataset
                in DataLoader input_ids (batch_size config))))"

text \<open>
  The function \<open>prep\<close> maps over the dataset, lines 17 to 23 of train_light.py, with the
  two variables it reads: it calls \<open>tokeniser\<close> with
  \<open>max_length=model.transformer.wpe.num_embeddings\<close>. It runs when the dataset is iterated.
\<close>

definition prep_tokenise :: "pyobj \<Rightarrow> pyobj \<Rightarrow> string list \<Rightarrow> pyerror + tokenizer_call" where
  "prep_tokenise model tokeniser seq =
     (case getattr model ''transformer'' of
        Inl e \<Rightarrow> Inl e
      | Inr transformer \<Rightarrow>
          (case getattr transformer ''wpe'' of
             Inl e \<Rightarrow> Inl e
           | Inr wpe \<Rightarrow>
               (case getattr wpe ''num_embeddings'' of
                  Inl e \<Rightarrow> Inl e
                | Inr n \<Rightarrow> Inr \<lparr>callee = tokeniser, texts = seq, max_length = n\<rparr>)))"

text \<open>
  \<open>prep\<close>, lines 10 to 28. Line 11 is \<open>model, tokeniser = create_model("gpt2")\<close>: \<open>model\<close> is
  bound to the first component of the pair and \<open>tokeniser\<close> to the second. The result is
  the loader (its batches, each item the outcome of the mapped function), \<open>tokeniser\<close> and
  \<open>model\<close>.
\<close>

definition prep ::
  "pretrained \<Rightarrow> string list list
    \<Rightarrow> pyerror + ((pyerror + tokenizer_call) list list \<times> pyobj \<times> pyobj)" where
  "prep hub dataset =
     (case create_model hub ''gpt2'' of
        Inl e \<Rightarrow> Inl e
      | Inr (model, tokeniser) \<Rightarrow>
          (case DataLoader (map (prep_tokenise model tokeniser) dataset) 8 of
             Inl e \<Rightarrow> Inl e
           | Inr train_dl \<Rightarrow> Inr (train_dl, tokeniser, model)))"

section \<open>The training loop (train.py)\<close>

text \<open>
  What a run does to the world outside, in order: the calls to the tracking service, the
  passes over the model, the files saved and the artifacts logged.
\<close>

datatype event =
    WandbInit
  | WandbWatch pyval
  | TrainMode
  | Forward
  | ZeroGrad
  | Backward
  | OptimiserStep
  | Save string
  | LogArtifact string string

text \<open>\<open>str(x)\<close> of the checkpoint path inside the f-string: \<open>None\<close> prints as \<open>None\<close>.\<close>

definition str_of_path :: "string option \<Rightarrow> string" where
  "str_of_path x = (case x of None \<Rightarrow> ''None'' | Some s \<Rightarrow> s)"

text \<open>Line 41: the path of a checkpoint.\<close>

definition model_path :: "config_instance \<Rightarrow> string \<Rightarrow> string" where
  "model_path config run_id = str_of_path (ckpt_path config) @ ''/gpt2-'' @ run_id @ ''.pt''"

text \<open>
  Lines 40 to 45, for batch index \<open>i\<close>: the events and the exception, if one is raised.
  \<open>i > 0 and ...\<close> does not read \<open>config.checkpoint_every_n\<close> when \<open>i\<close> is 0; \<open>i % n\<close>
  raises ZeroDivisionError for \<open>n = 0\<close> and TypeError for a string.
\<close>

definition checkpoint :: "config_instance \<Rightarrow> string \<Rightarrow> nat \<Rightarrow> event list \<times> pyerror option" where
  "checkpoint config run_id i =
     (if i > 0 then
        (case attr config ''checkpoint_every_n'' of
           Inl e \<Rightarrow> ([], Some e)
         | Inr (StrV s) \<Rightarrow> ([], Some TypeError)
         | Inr (IntV n) \<Rightarrow>
             if n = 0 then ([], Some ZeroDivisionError)
             else if int i mod n = 0 then
               ([Save (model_path config run_id),
                 LogArtifact (''gpt2-'' @ run_id) (model_path config run_id)], None)
             else ([], None))
      else ([], None))"

text \<open>Lines 30 to 45: the loop over the batches, from index \<open>i\<close>.\<close>

fun batch_loop ::
  "config_instance \<Rightarrow> string \<Rightarrow> nat \<Rightarrow> 'b list \<Rightarrow> event list \<times> pyerror option" where
  "batch_loop config run_id i [] = ([], None)"
| "batch_loop config run_id i (b # bs) =
     (case checkpoint config run_id i of
        (evs, Some e) \<Rightarrow> ([Forward, ZeroGrad, Backward, OptimiserStep] @ evs, Some e)
      | (evs, None) \<Rightarrow>
          (case batch_loop config run_id (Suc i) bs of
             (rest, r) \<Rightarrow> ([Forward, ZeroGrad, Backward, OptimiserStep] @ evs @ rest, r)))"

text \<open>Line 29: the loop over the epochs; each one iterates over the loader again.\<close>

fun epoch_loop ::
  "config_instance \<Rightarrow> string \<Rightarrow> nat \<Rightarrow> 'b list \<Rightarrow> event list \<times> pyerror option" where
  "epoch_loop config run_id 0 dl = ([], None)"
| "epoch_loop config run_id (Suc k) dl =
     (case batch_loop config run_id 0 dl of
        (evs, Some e) \<Rightarrow> (evs, Some e)
      | (evs, None) \<Rightarrow>
          (case epoch_loop config run_id k dl of (rest, r) \<Rightarrow> (evs @ rest, r)))"

text \<open>
  \<open>train\<close>, lines 17 to 46, for the batches \<open>train_dataloader\<close> yields and the id
  \<open>wandb.run.id\<close> of the run. \<open>wandb.init\<close> has been called when \<open>config.log_every_n\<close> is
  read. \<open>range(n)\<close> raises TypeError for a string and is empty for a negative \<open>n\<close>.
\<close>

definition train :: "config_instance \<Rightarrow> 'b list \<Rightarrow> string \<Rightarrow> event list \<times> pyerror option" where
  "train config train_dataloader run_id =
     (case attr config ''log_every_n'' of
        Inl e \<Rightarrow> ([WandbInit], Some e)
      | Inr log_freq \<Rightarrow>
          (case attr config ''num_epochs'' of
             Inl e \<Rightarrow> ([WandbInit, WandbWatch log_freq, TrainMode], Some e)
           | Inr (StrV s) \<Rightarrow> ([WandbInit, WandbWatch log_freq, TrainMode], Some TypeError)
           | Inr (IntV n) \<Rightarrow>
               (case epoch_loop config run_id (nat n) train_dataloader of
                  (evs, r) \<Rightarrow> ([WandbInit, WandbWatch log_freq, TrainMode] @ evs, r))))"

text \<open>The optimiser steps of a run and the paths it saved to, in order.\<close>

definition steps :: "event list \<Rightarrow> nat" where
  "steps evs = length (filter (\<lambda>e. e = OptimiserStep) evs)"

fun saved_path :: "event \<Rightarrow> string option" where
  "saved_path (Save p) = Some p"
| "saved_path e = None"

definition saved_paths :: "event list \<Rightarrow> string list" where
  "saved_paths evs = List.map_filter saved_path evs"


section \<open>Properties of the config loader\<close>

lemma split_from_length: "length (split_from [c] acc s) = Suc (count_list s c)"
  by (induction s arbitrary: acc) auto

lemma key_value_ok_iff: "(\<exists>kv. key_value l = Inr kv) \<longleftrightarrow> count_list l (CHR '':'') = 1"
proof -
  have len: "length (py_split '':'' l) = Suc (count_list l (CHR '':''))"
    by (simp add: py_split_def split_from_length)
  show ?thesis
  proof (cases "py_split '':'' l")
    case Nil
    with len show ?thesis by simp
  next
    case (Cons a as)
    with len show ?thesis
      by (cases as; cases "tl as") (auto simp: key_value_def)
  qed
qed

lemma key_value_error: "key_value l = Inl e \<Longrightarrow> e = ValueError"
  by (auto simp: key_value_def split: list.splits)

lemma key_value_fails: "count_list l (CHR '':'') \<noteq> 1 \<Longrightarrow> key_value l = Inl ValueError"
  using key_value_ok_iff [of l] key_value_error [of l] by (cases "key_value l") auto

lemma store_max_epochs:
  "store kw ''max_epochs'' v =
     (case py_int v of None \<Rightarrow> Inl ValueError | Some i \<Rightarrow> Inr (kw\<lparr>kw_max_epochs := Some i\<rparr>))"
  by (simp add: store_def set_int_def split: option.split)

lemma store_batch_size:
  "store kw ''batch_size'' v =
     (case py_int v of None \<Rightarrow> Inl ValueError | Some i \<Rightarrow> Inr (kw\<lparr>kw_batch_size := Some i\<rparr>))"
  by (simp add: store_def set_int_def split: option.split)

lemma store_num_workers:
  "store kw ''num_workers'' v =
     (case py_int v of None \<Rightarrow> Inl ValueError | Some i \<Rightarrow> Inr (kw\<lparr>kw_num_workers := Some i\<rparr>))"
  by (simp add: store_def set_int_def split: option.split)

lemma store_learning_rate:
  "store kw ''learning_rate'' v =
     (case py_float v of None \<Rightarrow> Inl ValueError
      | Some x \<Rightarrow> Inr (kw\<lparr>kw_learning_rate := Some x\<rparr>))"
  by (simp add: store_def set_float_def split: option.split)

lemma store_weight_decay:
  "store kw ''weight_decay'' v =
     (case py_float v of None \<Rightarrow> Inl ValueError
      | Some x \<Rightarrow> Inr (kw\<lparr>kw_weight_decay := Some x\<rparr>))"
  by (simp add: store_def set_float_def split: option.split)

lemma store_betas:
  "store kw ''betas'' v =
     (case parse_betas v of None \<Rightarrow> Inl ValueError | Some b \<Rightarrow> Inr (kw\<lparr>kw_betas := Some b\<rparr>))"
  by (simp add: store_def)

lemma store_other: "k \<notin> set recognised \<Longrightarrow> store kw k v = Inr kw"
  by (simp add: store_def recognised_def)

lemmas store_key = store_max_epochs store_batch_size store_num_workers store_learning_rate
  store_weight_decay store_betas

lemma key_cases:
  obtains "k = ''max_epochs''" | "k = ''batch_size''" | "k = ''num_workers''"
  | "k = ''learning_rate''" | "k = ''weight_decay''" | "k = ''betas''" | "k \<notin> set recognised"
  by (auto simp: recognised_def)

lemma store_error: "store kw k v = Inl e \<Longrightarrow> e = ValueError"
  by (cases k rule: key_cases) (auto simp: store_key store_other split: option.splits)

lemma loop_body_error: "loop_body kw l = Inl e \<Longrightarrow> e = ValueError"
  by (auto simp: loop_body_def split: sum.splits dest: key_value_error store_error)

lemma for_lines_error: "for_lines kw ls = Inl e \<Longrightarrow> e = ValueError"
  by (induction ls arbitrary: kw) (auto split: sum.splits dest: loop_body_error)

lemma for_lines_bad_line:
  "l \<in> set ls \<Longrightarrow> key_value l = Inl ValueError \<Longrightarrow> for_lines kw ls = Inl ValueError"
proof (induction ls arbitrary: kw)
  case Nil
  then show ?case by simp
next
  case (Cons a ls)
  show ?case
  proof (cases "loop_body kw a")
    case (Inl e)
    then show ?thesis using loop_body_error by auto
  next
    case (Inr kw')
    with Cons have "a \<noteq> l" by (auto simp: loop_body_def)
    with Cons Inr show ?thesis by auto
  qed
qed

lemma config_bad_line:
  assumes "fs p = Some content" and "l \<in> set (file_lines content)"
    and "count_list l (CHR '':'') \<noteq> 1"
  shows "config_from_file fs p = Inl ValueError"
  using assms for_lines_bad_line [OF assms(2) key_value_fails [OF assms(3)]]
  by (simp add: config_from_file_def)

text \<open>
  C6. A config file with a line that has no \<open>:\<close> makes \<open>config_from_file\<close> raise: the
  unpacking of line 18 fails with ValueError, Python's error for a value that does not
  parse, and no \<open>TrainingConfig\<close> is returned.
\<close>

theorem line_without_colon_fails:
  assumes "fs yaml_file = Some content"
    and "line \<in> set (file_lines content)"
    and "CHR '':'' \<notin> set line"
  shows "config_from_file fs yaml_file = Inl ValueError"
proof -
  from assms(3) have "count_list line (CHR '':'') = 0" by (simp add: count_list_0_iff)
  then have "count_list line (CHR '':'') \<noteq> 1" by simp
  with assms(1,2) show ?thesis by (rule config_bad_line)
qed

theorem line_without_colon_fails_witness:
  "config_from_file [''config.yaml'' \<mapsto> ''max_epochs: 3\<newline>batch_size 16\<newline>'']
     ''config.yaml'' = Inl ValueError"
proof -
  have 1: "[''config.yaml'' \<mapsto> ''max_epochs: 3\<newline>batch_size 16\<newline>''] ''config.yaml''
      = Some ''max_epochs: 3\<newline>batch_size 16\<newline>''"
    by simp
  have 2: "''batch_size 16\<newline>'' \<in> set (file_lines ''max_epochs: 3\<newline>batch_size 16\<newline>'')"
    by code_simp
  have 3: "CHR '':'' \<notin> set ''batch_size 16\<newline>''"
    by simp
  show ?thesis
    by (rule line_without_colon_fails
        [of "[''config.yaml'' \<mapsto> ''max_epochs: 3\<newline>batch_size 16\<newline>'']" "''config.yaml''",
         OF 1 2 3])
qed

text \<open>
  C10. \<open>config_from_file\<close> raises ValueError for a file with any line that does not hold
  exactly one \<open>:\<close>, so also for a blank line and for a value with a colon in it.
\<close>

theorem line_needs_exactly_one_colon:
  assumes "fs yaml_file = Some content"
    and "line \<in> set (file_lines content)"
    and "count_list line (CHR '':'') \<noteq> 1"
  shows "config_from_file fs yaml_file = Inl ValueError"
  using assms by (rule config_bad_line)

theorem line_needs_exactly_one_colon_witness:
  "config_from_file [''config.yaml'' \<mapsto> ''max_epochs: 3\<newline>\<newline>batch_size: 16\<newline>'']
     ''config.yaml'' = Inl ValueError
   \<and> config_from_file [''config.yaml'' \<mapsto> ''ckpt_path: C:/ckpts\<newline>'']
     ''config.yaml'' = Inl ValueError"
proof -
  have a1: "[''config.yaml'' \<mapsto> ''max_epochs: 3\<newline>\<newline>batch_size: 16\<newline>''] ''config.yaml''
      = Some ''max_epochs: 3\<newline>\<newline>batch_size: 16\<newline>''"
    by simp
  have a2: "''\<newline>'' \<in> set (file_lines ''max_epochs: 3\<newline>\<newline>batch_size: 16\<newline>'')"
    by code_simp
  have a3: "count_list ''\<newline>'' (CHR '':'') \<noteq> 1"
    by simp
  have b1: "[''config.yaml'' \<mapsto> ''ckpt_path: C:/ckpts\<newline>''] ''config.yaml''
      = Some ''ckpt_path: C:/ckpts\<newline>''"
    by simp
  have b2: "''ckpt_path: C:/ckpts\<newline>'' \<in> set (file_lines ''ckpt_path: C:/ckpts\<newline>'')"
    by code_simp
  have b3: "count_list ''ckpt_path: C:/ckpts\<newline>'' (CHR '':'') \<noteq> 1"
    by simp
  show ?thesis
    using
      line_needs_exactly_one_colon
        [of "[''config.yaml'' \<mapsto> ''max_epochs: 3\<newline>\<newline>batch_size: 16\<newline>'']"
          "''config.yaml''", OF a1 a2 a3]
      line_needs_exactly_one_colon
        [of "[''config.yaml'' \<mapsto> ''ckpt_path: C:/ckpts\<newline>'']" "''config.yaml''", OF b1 b2 b3]
    by (rule conjI)
qed

lemma last_value_Nil: "last_value k [] = None"
  by (simp add: last_value_def)

lemma last_value_None_iff: "last_value k ls = None \<longleftrightarrow> \<not> names_key ls k"
proof (cases "filter (has_key k) ls")
  case Nil
  then show ?thesis
    by (simp add: last_value_def names_key_def list_ex_iff filter_empty_conv)
next
  case (Cons a as)
  then have "last (a # as) \<in> set (filter (has_key k) ls)"
    by (metis last_in_set list.distinct(1))
  then have "has_key k (last (a # as))" by simp
  then obtain v where "key_value (last (a # as)) = Inr (k, v)"
    by (auto simp: has_key_def split: sum.splits)
  moreover from Cons have "names_key ls k"
    by (metis filter_empty_conv list.distinct(1) list_ex_iff names_key_def)
  ultimately show ?thesis using Cons
    by (simp add: last_value_def del: last.simps)
qed

lemma last_value_Cons:
  "last_value k (l # ls) =
     (case last_value k ls of
        Some v \<Rightarrow> Some v
      | None \<Rightarrow> (case key_value l of Inl e \<Rightarrow> None
                 | Inr (k', v) \<Rightarrow> if k' = k then Some v else None))"
proof (cases "filter (has_key k) ls")
  case Nil
  then have "last_value k ls = None" by (simp add: last_value_def)
  with Nil show ?thesis
    by (auto simp: last_value_def has_key_def split: sum.splits)
next
  case (Cons a as)
  then have "names_key ls k"
    by (metis filter_empty_conv list.distinct(1) list_ex_iff names_key_def)
  then have "last_value k ls \<noteq> None" by (simp add: last_value_None_iff)
  moreover have "last_value k (l # ls) = last_value k ls"
    using Cons by (simp add: last_value_def)
  ultimately show ?thesis by (auto split: option.splits)
qed

lemma store_fields:
  assumes "store kw k v = Inr kw'"
  shows "kw_max_epochs kw' = (if k = ''max_epochs'' then py_int v else kw_max_epochs kw)
    \<and> kw_batch_size kw' = (if k = ''batch_size'' then py_int v else kw_batch_size kw)
    \<and> kw_num_workers kw' = (if k = ''num_workers'' then py_int v else kw_num_workers kw)
    \<and> kw_learning_rate kw' = (if k = ''learning_rate'' then py_float v else kw_learning_rate kw)
    \<and> kw_weight_decay kw' = (if k = ''weight_decay'' then py_float v else kw_weight_decay kw)
    \<and> kw_betas kw' = (if k = ''betas'' then parse_betas v else kw_betas kw)"
proof (cases k rule: key_cases)
  case 7
  with assms have "kw' = kw" by (simp add: store_other)
  with 7 show ?thesis by (auto simp: recognised_def)
qed (use assms in \<open>auto simp: store_key split: option.splits\<close>)

lemma store_parses:
  assumes "store kw k v = Inr kw'"
  shows "(k = ''max_epochs'' \<or> k = ''batch_size'' \<or> k = ''num_workers'' \<longrightarrow> py_int v \<noteq> None)
    \<and> (k = ''learning_rate'' \<or> k = ''weight_decay'' \<longrightarrow> py_float v \<noteq> None)
    \<and> (k = ''betas'' \<longrightarrow> parse_betas v \<noteq> None)"
  using assms by (auto simp: store_key split: option.splits)

lemma for_lines_field:
  assumes step: "\<And>kw k v kw'. store kw k v = Inr kw' \<Longrightarrow> f kw' = (if k = k0 then P v else f kw)"
    and parses: "\<And>kw v kw'. store kw k0 v = Inr kw' \<Longrightarrow> P v \<noteq> None"
    and run: "for_lines kw ls = Inr kw'"
  shows "case last_value k0 ls of None \<Rightarrow> f kw' = f kw | Some v \<Rightarrow> f kw' = P v \<and> P v \<noteq> None"
  using run
proof (induction ls arbitrary: kw)
  case Nil
  then show ?case by (simp add: last_value_Nil)
next
  case (Cons l ls)
  from Cons.prems obtain kw1 where body: "loop_body kw l = Inr kw1"
    and rest: "for_lines kw1 ls = Inr kw'"
    by (auto split: sum.splits)
  from body obtain k v where kv: "key_value l = Inr (k, v)" and st: "store kw k v = Inr kw1"
    by (auto simp: loop_body_def split: sum.splits)
  have ih: "case last_value k0 ls of None \<Rightarrow> f kw' = f kw1 | Some v \<Rightarrow> f kw' = P v \<and> P v \<noteq> None"
    by (rule Cons.IH [OF rest])
  show ?case
  proof (cases "last_value k0 ls")
    case None
    show ?thesis
    proof (cases "k = k0")
      case True
      with None ih step [OF st] parses [of kw v kw1] st kv show ?thesis
        by (simp add: last_value_Cons)
    next
      case False
      with None ih step [OF st] kv show ?thesis
        by (simp add: last_value_Cons)
    qed
  next
    case (Some w)
    with ih show ?thesis by (simp add: last_value_Cons)
  qed
qed

lemma loaded_kwargs:
  assumes run: "for_lines empty_kwargs ls = Inr kw"
  shows "case last_value ''max_epochs'' ls of
           None \<Rightarrow> kw_max_epochs kw = None | Some v \<Rightarrow> kw_max_epochs kw = py_int v \<and> py_int v \<noteq> None"
    and "case last_value ''batch_size'' ls of
           None \<Rightarrow> kw_batch_size kw = None | Some v \<Rightarrow> kw_batch_size kw = py_int v \<and> py_int v \<noteq> None"
    and "case last_value ''num_workers'' ls of
           None \<Rightarrow> kw_num_workers kw = None
         | Some v \<Rightarrow> kw_num_workers kw = py_int v \<and> py_int v \<noteq> None"
    and "case last_value ''learning_rate'' ls of
           None \<Rightarrow> kw_learning_rate kw = None
         | Some v \<Rightarrow> kw_learning_rate kw = py_float v \<and> py_float v \<noteq> None"
    and "case last_value ''weight_decay'' ls of
           None \<Rightarrow> kw_weight_decay kw = None
         | Some v \<Rightarrow> kw_weight_decay kw = py_float v \<and> py_float v \<noteq> None"
    and "case last_value ''betas'' ls of
           None \<Rightarrow> kw_betas kw = None
         | Some v \<Rightarrow> kw_betas kw = parse_betas v \<and> parse_betas v \<noteq> None"
proof -
  note fld = for_lines_field [OF _ _ run]
  show "case last_value ''max_epochs'' ls of
           None \<Rightarrow> kw_max_epochs kw = None | Some v \<Rightarrow> kw_max_epochs kw = py_int v \<and> py_int v \<noteq> None"
    using fld [of kw_max_epochs "''max_epochs''" py_int] store_fields store_parses
    by (simp add: empty_kwargs_def split: option.splits)
  show "case last_value ''batch_size'' ls of
           None \<Rightarrow> kw_batch_size kw = None | Some v \<Rightarrow> kw_batch_size kw = py_int v \<and> py_int v \<noteq> None"
    using fld [of kw_batch_size "''batch_size''" py_int] store_fields store_parses
    by (simp add: empty_kwargs_def split: option.splits)
  show "case last_value ''num_workers'' ls of
           None \<Rightarrow> kw_num_workers kw = None
         | Some v \<Rightarrow> kw_num_workers kw = py_int v \<and> py_int v \<noteq> None"
    using fld [of kw_num_workers "''num_workers''" py_int] store_fields store_parses
    by (simp add: empty_kwargs_def split: option.splits)
  show "case last_value ''learning_rate'' ls of
           None \<Rightarrow> kw_learning_rate kw = None
         | Some v \<Rightarrow> kw_learning_rate kw = py_float v \<and> py_float v \<noteq> None"
    using fld [of kw_learning_rate "''learning_rate''" py_float] store_fields store_parses
    by (simp add: empty_kwargs_def split: option.splits)
  show "case last_value ''weight_decay'' ls of
           None \<Rightarrow> kw_weight_decay kw = None
         | Some v \<Rightarrow> kw_weight_decay kw = py_float v \<and> py_float v \<noteq> None"
    using fld [of kw_weight_decay "''weight_decay''" py_float] store_fields store_parses
    by (simp add: empty_kwargs_def split: option.splits)
  show "case last_value ''betas'' ls of
           None \<Rightarrow> kw_betas kw = None
         | Some v \<Rightarrow> kw_betas kw = parse_betas v \<and> parse_betas v \<noteq> None"
    using fld [of kw_betas "''betas''" parse_betas] store_fields store_parses
    by (simp add: empty_kwargs_def split: option.splits)
qed

lemma config_fields:
  assumes "fs p = Some content" and "config_from_file fs p = Inr cfg"
  obtains kw where "for_lines empty_kwargs (file_lines content) = Inr kw"
    and "cfg = TrainingConfig_init kw"
  using assms by (auto simp: config_from_file_def split: sum.splits)




text \<open>
  C7. When \<open>config_from_file\<close> returns a config, every field that no line of the file
  names has its declared default: \<open>max_epochs\<close> 10, \<open>batch_size\<close> 64, \<open>learning_rate\<close> 1e-4,
  \<open>betas\<close> (0.9, 0.95), \<open>weight_decay\<close> 0.1, \<open>num_workers\<close> 0. The checkpoint path is unset
  whatever the file holds: no branch of the loop assigns it.
\<close>

theorem absent_fields_keep_defaults:
  assumes src: "fs yaml_file = Some content"
    and ok: "config_from_file fs yaml_file = Inr cfg"
  shows "(\<not> names_key (file_lines content) ''max_epochs'' \<longrightarrow> max_epochs cfg = 10)
    \<and> (\<not> names_key (file_lines content) ''batch_size'' \<longrightarrow> batch_size cfg = 64)
    \<and> (\<not> names_key (file_lines content) ''learning_rate''
          \<longrightarrow> learning_rate cfg = Finite (1 / 10000))
    \<and> (\<not> names_key (file_lines content) ''betas''
          \<longrightarrow> betas cfg = (Finite (9 / 10), Finite (95 / 100)))
    \<and> (\<not> names_key (file_lines content) ''weight_decay'' \<longrightarrow> weight_decay cfg = Finite (1 / 10))
    \<and> (\<not> names_key (file_lines content) ''num_workers'' \<longrightarrow> num_workers cfg = 0)
    \<and> ckpt_path cfg = None"
proof -
  from src ok obtain kw where run: "for_lines empty_kwargs (file_lines content) = Inr kw"
    and cfg: "cfg = TrainingConfig_init kw"
    by (rule config_fields)
  note kws = loaded_kwargs [OF run]
  have "\<not> names_key (file_lines content) ''max_epochs'' \<longrightarrow> max_epochs cfg = 10"
    using kws(1) by (auto simp: cfg TrainingConfig_init_def last_value_None_iff [symmetric])
  moreover have "\<not> names_key (file_lines content) ''batch_size'' \<longrightarrow> batch_size cfg = 64"
    using kws(2) by (auto simp: cfg TrainingConfig_init_def last_value_None_iff [symmetric])
  moreover have "\<not> names_key (file_lines content) ''learning_rate''
      \<longrightarrow> learning_rate cfg = Finite (1 / 10000)"
    using kws(4) by (auto simp: cfg TrainingConfig_init_def last_value_None_iff [symmetric])
  moreover have "\<not> names_key (file_lines content) ''betas''
      \<longrightarrow> betas cfg = (Finite (9 / 10), Finite (95 / 100))"
    using kws(6) by (auto simp: cfg TrainingConfig_init_def last_value_None_iff [symmetric])
  moreover have "\<not> names_key (file_lines content) ''weight_decay''
      \<longrightarrow> weight_decay cfg = Finite (1 / 10)"
    using kws(5) by (auto simp: cfg TrainingConfig_init_def last_value_None_iff [symmetric])
  moreover have "\<not> names_key (file_lines content) ''num_workers'' \<longrightarrow> num_workers cfg = 0"
    using kws(3) by (auto simp: cfg TrainingConfig_init_def last_value_None_iff [symmetric])
  moreover have "ckpt_path cfg = None"
    by (simp add: cfg TrainingConfig_init_def)
  ultimately show ?thesis by blast
qed

theorem absent_fields_keep_defaults_witness:
  "\<exists>cfg. config_from_file [''config.yaml'' \<mapsto> ''batch_size: 16\<newline>ckpt_path: ckpts\<newline>'']
       ''config.yaml'' = Inr cfg
     \<and> max_epochs cfg = 10 \<and> learning_rate cfg = Finite (1 / 10000)
     \<and> betas cfg = (Finite (9 / 10), Finite (95 / 100)) \<and> weight_decay cfg = Finite (1 / 10)
     \<and> num_workers cfg = 0 \<and> ckpt_path cfg = None"
proof -
  let ?text = "''batch_size: 16\<newline>ckpt_path: ckpts\<newline>''"
  let ?fs = "[''config.yaml'' \<mapsto> ?text]"
  have src: "?fs ''config.yaml'' = Some ?text"
    by simp
  have "\<not> isl (config_from_file ?fs ''config.yaml'')"
    by code_simp
  then obtain cfg where ok: "config_from_file ?fs ''config.yaml'' = Inr cfg"
    by (cases "config_from_file ?fs ''config.yaml''") auto
  have "\<not> names_key (file_lines ?text) ''max_epochs''"
    and "\<not> names_key (file_lines ?text) ''learning_rate''"
    and "\<not> names_key (file_lines ?text) ''betas''"
    and "\<not> names_key (file_lines ?text) ''weight_decay''"
    and "\<not> names_key (file_lines ?text) ''num_workers''"
    by code_simp+
  with absent_fields_keep_defaults [of ?fs "''config.yaml''", OF src ok] ok
  show ?thesis by blast
qed

section \<open>Properties of the helpers\<close>

lemma sum_from_methods:
  "sum_from acc (map BoundMethod ps) = (if ps = [] then Inr acc else Inl TypeError)"
  by (cases ps) simp_all

lemma count_parameters_outcome:
  "count_parameters model =
     (if filter requires_grad model = [] then Inr 0 else Inl TypeError)"
  by (simp add: count_parameters_def sum_from_methods)

text \<open>
  C4. \<open>count_parameters\<close> does not return the number of trainable elements: for a model
  with one trainable parameter of shape 2 by 3 (six elements) it raises TypeError, since
  line 49 sums the bound methods \<open>p.numel\<close> and never calls them.
\<close>

theorem count_parameters_raises:
  "count_parameters [\<lparr>shape = [2, 3], requires_grad = True\<rparr>] = Inl TypeError
   \<and> trainable_elements [\<lparr>shape = [2, 3], requires_grad = True\<rparr>] = 6"
  by (simp add: count_parameters_outcome trainable_elements_def numel_def)

lemma extract_tag_ValueError_iff:
  assumes "\<And>doc. fromstring ET doc \<noteq> Inl ValueError"
  shows "extract_tag ET input_string tag_name = Inl ValueError \<longleftrightarrow> \<not> py_in tag_name input_string"
  using assms [of "''<root>'' @ input_string @ ''</root>''"]
  by (auto simp: extract_tag_def split: sum.splits option.splits)

lemma plain_fromstring_no_ValueError: "plain_fromstring doc \<noteq> Inl ValueError"
  by (simp add: plain_fromstring_def split: option.splits)

lemma extract_tag_examples:
  "extract_tag ElementTree ''<move>e4</move>'' ''move'' = Inr (Some ''e4'')"
  "extract_tag ElementTree ''<move>e4</move>'' ''score'' = Inl ValueError"
  by code_simp+

text \<open>
  C8. \<open>extract_tag\<close> does not raise ValueError whenever the tag is absent: its test is
  whether the tag name occurs in the input as a piece of text. For the input
  \<open><moves>e4</moves>\<close> and the tag \<open>move\<close> there is no element \<open>move\<close>, the name occurs inside
  \<open>moves\<close>, \<open>find\<close> returns \<open>None\<close> and reading \<open>.text\<close> raises AttributeError. The same
  happens when the element is there but is not a child of the root.
\<close>

theorem extract_tag_absent_tag_not_ValueError:
  "extract_tag ElementTree ''<moves>e4</moves>'' ''move'' = Inl AttributeError
   \<and> extract_tag ElementTree ''<game><move>e4</move></game>'' ''move'' = Inl AttributeError"
  by code_simp

section \<open>Properties of the model factory and the pipelines\<close>

text \<open>
  C2. With the objects the library returns for GPT-2, of any of its four sizes,
  \<open>create_model\<close> does not return:
  line 14 reads \<open>model.wte\<close>, and the model has no such attribute (its embedding tables
  are attributes of \<open>model.transformer\<close>), so AttributeError is raised and no embedding
  table is resized.
\<close>

theorem create_model_raises:
  "create_model transformers ''gpt2'' = Inl AttributeError
   \<and> create_model transformers ''gpt2-medium'' = Inl AttributeError
   \<and> create_model transformers ''gpt2-large'' = Inl AttributeError
   \<and> create_model transformers ''gpt2-xl'' = Inl AttributeError"
  by (simp add: create_model_def transformers_def n_embd_of_def GPT2LMHeadModel_def)

text \<open>
  Where the model does have an attribute \<open>wte\<close> with an embedding dimension, the factory
  returns what the specification describes, and the pair is (tokenizer, model).
\<close>

lemma create_model_returns:
  assumes "GPT2Tokenizer_from_pretrained hub model_type = Some (Tokenizer n [])"
    and "GPT2LMHeadModel_from_pretrained hub model_type = Some (Module as)"
    and "map_of as ''wte'' = Some (Embedding r d)"
  shows "\<exists>as'. create_model hub model_type = Inr (Tokenizer n [''[PAD]''], Module as')
           \<and> map_of as' ''wte'' = Some (Embedding (n + 1) d)
           \<and> tokenizer_len (Tokenizer n [''[PAD]'']) = n + 1"
  using assms by (simp add: create_model_def nat_add_distrib)

lemma batches_from_members:
  "b \<in> set (batches_from n cur xs) \<Longrightarrow> x \<in> set b \<Longrightarrow> x \<in> set cur \<union> set xs"
proof (induction xs arbitrary: cur)
  case Nil
  then show ?case by (auto split: if_splits)
next
  case (Cons a xs)
  show ?case
  proof (cases "Suc (length cur) = n")
    case True
    with Cons.prems have "b = rev (a # cur) \<or> b \<in> set (batches_from n [] xs)" by auto
    then show ?thesis
    proof
      assume "b = rev (a # cur)"
      with Cons.prems(2) show ?thesis by auto
    next
      assume "b \<in> set (batches_from n [] xs)"
      from Cons.IH [OF this Cons.prems(2)] show ?thesis by auto
    qed
  next
    case False
    with Cons.prems have "b \<in> set (batches_from n (a # cur) xs)" by auto
    from Cons.IH [OF this Cons.prems(2)] show ?thesis by auto
  qed
qed

lemma preprocess_data_max_length:
  assumes "preprocess_data load_dataset tokeniser config = Inr train_dl"
    and "batch \<in> set train_dl" and "call \<in> set batch"
  shows "max_length call = IntO 1024"
proof -
  from assms(1) obtain dataset where
    dl: "train_dl = batches_from (nat (batch_size config)) []
           (map (\<lambda>seq. \<lparr>callee = add_special_tokens tokeniser ''[PAD]'', texts = seq,
                         max_length = IntO 1024\<rparr>) dataset)"
    by (auto simp: preprocess_data_def DataLoader_def Let_def
        split: sum.splits option.splits if_splits)
  from batches_from_members [OF assms(2) [unfolded dl] assms(3)] show ?thesis by auto
qed

lemma preprocess_data_needs_dataset:
  "preprocess_data load_dataset tokeniser (instance_of c) = Inl AttributeError"
  by (simp add: preprocess_data_def attr_def instance_of_def)

text \<open>
  C9. The lightweight pipeline does not tokenize to the model's position-embedding count.
  With the library's GPT-2 objects \<open>prep\<close> raises AttributeError before any example is
  tokenized (\<open>create_model\<close> raises). And whenever \<open>create_model\<close> returns its pair
  (tokenizer, model), line 11 binds \<open>model\<close> to the tokenizer and \<open>tokeniser\<close> to the model:
  the mapped function reads \<open>max_length\<close> from the tokenizer object and calls the model
  object, and the values \<open>prep\<close> returns as tokeniser and model are swapped too.
\<close>

theorem prep_unpacks_in_the_wrong_order:
  "prep transformers dataset = Inl AttributeError
   \<and> (\<forall>hub tok mdl.
        create_model hub ''gpt2'' = Inr (tok, mdl) \<longrightarrow>
        prep hub dataset =
          (case DataLoader (map (prep_tokenise tok mdl) dataset) 8 of
             Inl e \<Rightarrow> Inl e
           | Inr train_dl \<Rightarrow> Inr (train_dl, mdl, tok)))"
proof
  have "create_model transformers ''gpt2'' = Inl AttributeError"
    by (simp add: create_model_def transformers_def n_embd_of_def GPT2LMHeadModel_def)
  then show "prep transformers dataset = Inl AttributeError"
    by (simp add: prep_def)
next
  show "\<forall>hub tok mdl.
        create_model hub ''gpt2'' = Inr (tok, mdl) \<longrightarrow>
        prep hub dataset =
          (case DataLoader (map (prep_tokenise tok mdl) dataset) 8 of
             Inl e \<Rightarrow> Inl e
           | Inr train_dl \<Rightarrow> Inr (train_dl, mdl, tok))"
    by (simp add: prep_def)
qed

text \<open>
  The witness, on \<open>flat_library\<close>, where \<open>create_model\<close> returns: every call of the mapped
  function raises AttributeError, since the object bound to \<open>model\<close> is the tokenizer.
\<close>

theorem prep_unpacks_in_the_wrong_order_witness:
  "prep flat_library [[''e4 e5''], [''d4 d5'']] =
     Inr ([[Inl AttributeError, Inl AttributeError]],
          Module [(''wte'', Embedding 11 4), (''transformer'', Module [(''wpe'', Embedding 16 4)])],
          Tokenizer 10 [''[PAD]''])"
proof -
  have cm: "create_model flat_library ''gpt2'' =
      Inr (Tokenizer 10 [''[PAD]''],
           Module [(''wte'', Embedding 11 4), (''transformer'', Module [(''wpe'', Embedding 16 4)])])"
    by code_simp
  have dl: "DataLoader (map (prep_tokenise (Tokenizer 10 [''[PAD]''])
        (Module [(''wte'', Embedding 11 4), (''transformer'', Module [(''wpe'', Embedding 16 4)])]))
        [[''e4 e5''], [''d4 d5'']]) 8 = Inr [[Inl AttributeError, Inl AttributeError]]"
    by code_simp
  from prep_unpacks_in_the_wrong_order [of "[[''e4 e5''], [''d4 d5'']]"] cm
  have "prep flat_library [[''e4 e5''], [''d4 d5'']] =
      (case DataLoader (map (prep_tokenise (Tokenizer 10 [''[PAD]''])
        (Module [(''wte'', Embedding 11 4), (''transformer'', Module [(''wpe'', Embedding 16 4)])]))
        [[''e4 e5''], [''d4 d5'']]) 8 of
         Inl e \<Rightarrow> Inl e
       | Inr train_dl \<Rightarrow> Inr (train_dl,
           Module [(''wte'', Embedding 11 4), (''transformer'', Module [(''wpe'', Embedding 16 4)])],
           Tokenizer 10 [''[PAD]'']))"
    by blast
  with dl show ?thesis by simp
qed

section \<open>Properties of the training loop\<close>

lemma train_without_attributes:
  "train (instance_of c) train_dataloader run_id = ([WandbInit], Some AttributeError)"
  by (simp add: train_def attr_def instance_of_def)

text \<open>
  With the three attributes the loop reads set on the config (one epoch, a checkpoint
  every step), two batches give two optimiser steps and one checkpoint.
\<close>

lemma train_with_attributes:
  "train ((instance_of c)\<lparr>attrs := [(''log_every_n'', IntV 1), (''num_epochs'', IntV 1),
       (''checkpoint_every_n'', IntV 1)]\<rparr>) [b1, b2] run_id = (evs, r)
   \<Longrightarrow> r = None \<and> steps evs = 2 \<and> length (saved_paths evs) = 1"
  by (auto simp: train_def attr_def checkpoint_def steps_def saved_paths_def
      List.map_filter_simps numeral_2_eq_2)

text \<open>
  C1. The end-to-end run of the specification does not reach the first batch. The config
  loaded from a file with \<open>max_epochs: 1\<close>, \<open>batch_size: 2\<close> and \<open>checkpoint_every_n: 1\<close>
  has \<open>max_epochs\<close> 1 and \<open>batch_size\<close> 2 (the third key has no branch and is ignored), and
  four examples make two batches; but \<open>train\<close> reads \<open>config.log_every_n\<close>,
  \<open>config.num_epochs\<close> and \<open>config.checkpoint_every_n\<close>, none of which a \<open>TrainingConfig\<close>
  has. It raises AttributeError right after \<open>wandb.init\<close>: no optimiser step, no checkpoint.
\<close>

theorem train_on_loaded_config_raises:
  "config_from_file
      [''config.yaml'' \<mapsto> ''max_epochs: 1\<newline>batch_size: 2\<newline>checkpoint_every_n: 1\<newline>'']
      ''config.yaml''
     = Inr ((TrainingConfig_init empty_kwargs)\<lparr>max_epochs := 1, batch_size := 2\<rparr>)
   \<and> DataLoader [x1, x2, x3, x4]
        (batch_size ((TrainingConfig_init empty_kwargs)\<lparr>max_epochs := 1, batch_size := 2\<rparr>))
     = Inr [[x1, x2], [x3, x4]]
   \<and> train (instance_of ((TrainingConfig_init empty_kwargs)\<lparr>max_epochs := 1, batch_size := 2\<rparr>))
        [[x1, x2], [x3, x4]] run_id
     = ([WandbInit], Some AttributeError)
   \<and> steps [WandbInit] = 0 \<and> saved_paths [WandbInit] = []"
proof -
  have "config_from_file
      [''config.yaml'' \<mapsto> ''max_epochs: 1\<newline>batch_size: 2\<newline>checkpoint_every_n: 1\<newline>'']
      ''config.yaml''
     = Inr ((TrainingConfig_init empty_kwargs)\<lparr>max_epochs := 1, batch_size := 2\<rparr>)"
    by code_simp
  moreover have "DataLoader [x1, x2, x3, x4]
        (batch_size ((TrainingConfig_init empty_kwargs)\<lparr>max_epochs := 1, batch_size := 2\<rparr>))
     = Inr [[x1, x2], [x3, x4]]"
    by (simp add: DataLoader_def numeral_2_eq_2)
  moreover have "steps [WandbInit] = 0 \<and> saved_paths [WandbInit] = []"
    by (simp add: steps_def saved_paths_def List.map_filter_simps)
  ultimately show ?thesis
    by (simp only: train_without_attributes simp_thms)
qed


lemma saved_paths_Nil: "saved_paths [] = []"
  by (simp add: saved_paths_def List.map_filter_simps)








end
